theory Spec2Isabelle
  imports Complex_Main "HOL-Library.AList"
begin

section \<open>The progress store\<close>

text \<open>
  The server keeps three collections in one external key-value store: \<open>sessions\<close>,
  \<open>sessionCounter\<close> and \<open>queue\<close>. Every read fetches a whole collection and every write
  replaces a whole collection or one child of it. Reads and writes reach the store, with
  one exception that the code itself provokes: the store client refuses to write an object
  that holds a property whose value is \<open>undefined\<close>, and \<open>writeSessions\<close> catches that error,
  logs it and goes on (see \<open>saveProgress\<close> below). Network failures are not modelled.

  A session identifier is the decimal string of a six-digit number
  (\<open>generateSessionId\<close>); it is modelled by that number. The status is one of six strings.
\<close>

datatype status = Queued | Started | InProgress | Completed | Failed | Terminated

text \<open>
  A stored session is a schemaless object. The fields below are the ones the server reads
  or writes; a field the source may leave out is an option (\<open>None\<close> is JavaScript's
  \<open>undefined\<close>). The field \<open>amount\<close> is the one \<open>processSession\<close> destructures from the
  stored object; no writer of this repository sets it. The timestamps \<open>createdAt\<close> and
  \<open>lastUpdated\<close> and the formatted \<open>successRate\<close> are display fields computed from the
  clock and by floating-point formatting; they are left out.
\<close>

record session =
  status :: status
  totalShares :: int
  completedShares :: int
  failedShares :: "int option"
  url :: "string option"
  interval :: "rat option"
  sessionNumber :: "int option"
  cookie :: "string option"
  error :: "string option"
  amount :: "int option"

record world =
  sessions :: "(nat \<times> session) list"
  sessionCounter :: "int option"
  queue :: "(nat \<times> session) list"

text \<open>
  A collection is an association list; a child is set with \<open>AList.update\<close> (replace in
  place, or append a new key at the end, so the list keeps the order in which keys were
  first inserted) and removed with \<open>AList.delete\<close>. What JavaScript sees is the object
  built from the snapshot: \<open>Object.keys\<close> enumerates integer-like keys in ascending
  numeric order, whatever the order of insertion.
\<close>

definition Object_keys :: "(nat \<times> 'a) list \<Rightarrow> nat list" where
  "Object_keys al = sort (remdups (map fst al))"

definition Object_values :: "(nat \<times> 'a) list \<Rightarrow> 'a list" where
  "Object_values al = List.map_filter (map_of al) (Object_keys al)"

definition isActive :: "session \<Rightarrow> bool" where
  "isActive s = (status s = Started \<or> status s = InProgress)"

definition MAX_CONSECUTIVE_FAILURES :: nat where
  "MAX_CONSECUTIVE_FAILURES = 10"

definition MAX_PARALLEL_SESSIONS :: nat where
  "MAX_PARALLEL_SESSIONS = 5"

section \<open>Sequence numbers\<close>

text \<open>
  \<open>getNextSessionNumber\<close>: the counter read from the store is \<open>null\<close> (\<open>None\<close>) or a
  number. \<open>currentValue !== 0\<close> holds for \<open>null\<close> as well, and \<open>currentValue || 0\<close> maps
  \<open>null\<close> to 0.
\<close>

definition getNextSessionNumber :: "world \<Rightarrow> int \<times> world" where
  "getNextSessionNumber w =
     (let currentValue = sessionCounter w;
          activeSessions = filter isActive (Object_values (sessions w))
      in if length activeSessions = 0 \<and> currentValue \<noteq> Some 0
         then (1, w\<lparr>sessionCounter := Some 0\<rparr>)
         else (let newValue = (case currentValue of None \<Rightarrow> 0 | Some v \<Rightarrow> v) + 1
               in (newValue, w\<lparr>sessionCounter := Some newValue\<rparr>)))"

section \<open>Admission\<close>

text \<open>
  \<open>processQueue\<close> takes the configured worker count as a parameter
  (\<open>process.env.WORKER_COUNT || 4\<close>). It returns the identifier for which a worker is
  launched, if any, and the store after the move. The worker itself runs
  \<open>processSession\<close> concurrently and is not part of this function.
\<close>

definition processQueue :: "nat \<Rightarrow> world \<Rightarrow> nat option \<times> world" where
  "processQueue WORKER_COUNT w =
     (let queue0 = queue w;
          activeCount = length (filter isActive (Object_values (sessions w)))
      in if activeCount \<ge> MAX_PARALLEL_SESSIONS * WORKER_COUNT then (None, w)
         else (case Object_keys queue0 of
                 [] \<Rightarrow> (None, w)
               | nextSessionId # _ \<Rightarrow>
                   (case map_of queue0 nextSessionId of
                      None \<Rightarrow> (None, w)
                    | Some sessionData \<Rightarrow>
                        (Some nextSessionId,
                         w\<lparr>sessions := AList.update nextSessionId sessionData (sessions w),
                           queue := AList.delete nextSessionId queue0\<rparr>))))"

section \<open>Startup recovery\<close>

text \<open>
  The initialisation block: every session found \<open>in_progress\<close> is rewritten as \<open>failed\<close>
  with an error text, and the collection is written back when something changed (an
  unchanged collection is the same value whether written or not). The counter is then set
  to 0 when no session is \<open>started\<close> or \<open>in_progress\<close> and the counter is not already 0.
\<close>

definition recoverSession :: "session \<Rightarrow> session" where
  "recoverSession s =
     (if status s = InProgress
      then s\<lparr>status := Failed, error := Some ''Server restart interrupted this session''\<rparr>
      else s)"

definition startup :: "world \<Rightarrow> world" where
  "startup w =
     (let sessions1 = map (\<lambda>(id, s). (id, recoverSession s)) (sessions w);
          w1 = w\<lparr>sessions := sessions1\<rparr>;
          activeSessions = filter isActive (Object_values sessions1)
      in if length activeSessions = 0
         then (if sessionCounter w1 \<noteq> Some 0 then w1\<lparr>sessionCounter := Some 0\<rparr> else w1)
         else w1)"

section \<open>Submission\<close>

text \<open>
  The body of a request is parsed JSON. A field is a string, a number, an array of
  cookie objects (each with a \<open>key\<close> and a \<open>value\<close> string, the empty string being
  falsy), or anything else. Numbers are IEEE doubles in the source; every double is a
  rational and the comparisons against 0, 0.1, 1, 60 and 100 agree with the exact ones
  on doubles, so a number is modelled as a \<open>rat\<close>.
\<close>

datatype jsval = JStr string | JNum rat | JArr "(string \<times> string) list" | JOther

record request =
  req_cookie :: jsval
  req_url :: jsval
  req_amount :: jsval
  req_interval :: jsval

record response =
  res_status :: nat
  res_message :: string
  res_sessionId :: "nat option"
  res_sessionNumber :: "int option"

definition apiResponse :: "nat \<Rightarrow> string \<Rightarrow> response" where
  "apiResponse st msg =
     \<lparr>res_status = st, res_message = msg, res_sessionId = None, res_sessionNumber = None\<rparr>"

fun join :: "string \<Rightarrow> string list \<Rightarrow> string" where
  "join sep [] = []"
| "join sep [x] = x"
| "join sep (x # y # ys) = x @ sep @ join sep (y # ys)"

definition convertJsonToCookieString :: "(string \<times> string) list \<Rightarrow> string" where
  "convertJsonToCookieString cookieJson =
     join ''; '' (map (\<lambda>(k, v). k @ ''='' @ v)
                      (filter (\<lambda>(k, v). k \<noteq> [] \<and> v \<noteq> []) cookieJson))"

fun includesStr :: "string \<Rightarrow> string \<Rightarrow> bool" where
  "includesStr [] key = (key = [])"
| "includesStr (c # cs) key = (take (length key) (c # cs) = key \<or> includesStr cs key)"

definition requiredCookieKeys :: "string list" where
  "requiredCookieKeys = [''xs='', ''c_user='', ''fr='', ''datr='']"

definition toLower :: "char \<Rightarrow> char" where
  "toLower c =
     (case map_of (zip ''ABCDEFGHIJKLMNOPQRSTUVWXYZ'' ''abcdefghijklmnopqrstuvwxyz'') c of
        None \<Rightarrow> c | Some l \<Rightarrow> l)"

text \<open>
  The pattern \<open>/^https?:\/\/(www\.)?facebook\.com\/.+/i\<close>: one of four literal
  prefixes, compared without case, followed by at least one character that is not a line
  terminator.
\<close>

definition matchesFacebookUrl :: "string \<Rightarrow> bool" where
  "matchesFacebookUrl u =
     (let l = map toLower u
      in list_ex (\<lambda>p. take (length p) l = p \<and>
                      (case drop (length p) l of
                         [] \<Rightarrow> False
                       | c # _ \<Rightarrow> c \<noteq> CHR 0x0A \<and> c \<noteq> CHR 0x0D))
           [''https://www.facebook.com/'', ''https://facebook.com/'',
            ''http://www.facebook.com/'', ''http://facebook.com/''])"

text \<open>
  A character of the model is a code unit below 256. \<open>String.prototype.trim\<close> strips white
  space and line terminators; in that range these are tab, line feed, vertical tab, form
  feed, carriage return, space and the no-break space U+00A0. The Unicode spaces and line
  terminators above U+00FF have no character here.
\<close>

definition isSpace :: "char \<Rightarrow> bool" where
  "isSpace c =
     (c \<in> set [CHR 0x09, CHR 0x0A, CHR 0x0B, CHR 0x0C, CHR 0x0D, CHR 0x20, CHR 0xA0])"

definition trim :: "string \<Rightarrow> string" where
  "trim s = rev (dropWhile isSpace (rev (dropWhile isSpace s)))"

text \<open>
  \<open>parseFloat(x.toFixed(1))\<close>: \<open>toFixed(1)\<close> prints the integer number of tenths nearest
  to the exact value of \<open>x\<close>, the larger one on a tie, with the sign handled apart;
  \<open>parseFloat\<close> reads the decimal back (as the nearest double; here as the decimal
  itself).
\<close>

definition toFixed1 :: "rat \<Rightarrow> rat" where
  "toFixed1 x =
     (if x < 0 then - (of_int \<lfloor>- x * 10 + 1 / 2\<rfloor> / 10)
      else of_int \<lfloor>x * 10 + 1 / 2\<rfloor> / 10)"

text \<open>
  The type test of the handler: it yields the four fields when the cookie is a string or
  an array, the URL a string, and amount and interval numbers.
\<close>

definition typedBody :: "request \<Rightarrow> (jsval \<times> string \<times> rat \<times> rat) option" where
  "typedBody rq =
     (case req_url rq of
        JStr u \<Rightarrow>
          (case req_amount rq of
             JNum a \<Rightarrow>
               (case req_interval rq of
                  JNum i \<Rightarrow>
                    (case req_cookie rq of
                       JStr c \<Rightarrow> Some (JStr c, u, a, i)
                     | JArr c \<Rightarrow> Some (JArr c, u, a, i)
                     | _ \<Rightarrow> None)
                | _ \<Rightarrow> None)
           | _ \<Rightarrow> None)
      | _ \<Rightarrow> None)"

text \<open>
  The cookie string. \<open>JSON_parse\<close> is the library parser followed by the conversion,
  as the inner \<open>try\<close> runs them: the list of cookie objects when the string parses to an
  array that converts, \<open>None\<close> when either step throws (the inner \<open>catch\<close> then keeps the
  string as it is). An array of cookie objects always converts, so the response
  "Invalid cookie format" of the outer \<open>catch\<close> has no branch here.
\<close>

definition cookieStringOf :: "(string \<Rightarrow> (string \<times> string) list option) \<Rightarrow> jsval \<Rightarrow> string" where
  "cookieStringOf JSON_parse c =
     (case c of
        JArr items \<Rightarrow> convertJsonToCookieString items
      | JStr str \<Rightarrow>
          (case JSON_parse str of
             Some cookieJson \<Rightarrow> convertJsonToCookieString cookieJson
           | None \<Rightarrow> str)
      | _ \<Rightarrow> [])"

text \<open>
  The handler of \<open>POST /api/v1/submit\<close>, after the header check. \<open>sessionId\<close> is the
  identifier that \<open>generateSessionId\<close> draws for this request.
\<close>

definition submit ::
  "(string \<Rightarrow> (string \<times> string) list option) \<Rightarrow> nat \<Rightarrow> request \<Rightarrow> world \<Rightarrow> response \<times> world" where
  "submit JSON_parse sessionId rq w =
     (case typedBody rq of
        None \<Rightarrow>
          (apiResponse 400 ''Invalid parameter types. Expected: cookie(string or array), url(string), amount(number), interval(number)'', w)
      | Some (cookie0, url0, amount0, interval0) \<Rightarrow>
          (let cookieString = cookieStringOf JSON_parse cookie0
           in if \<not> list_ex (includesStr cookieString) requiredCookieKeys
              then (apiResponse 400 ''Invalid Facebook cookie. Must contain authentication tokens.'', w)
              else if \<not> matchesFacebookUrl url0
              then (apiResponse 400 ''Invalid Facebook URL format. Must start with https://facebook.com/'', w)
              else if amount0 \<le> 0
              then (apiResponse 400 ''Share amount must be at least 1 or greater than 0'', w)
              else if interval0 < 1 / 10 \<or> interval0 > 60
              then (apiResponse 400 ''Interval must be between 0.1 and 60 seconds'', w)
              else if interval0 < 1 \<and> amount0 > 100
              then (apiResponse 400 ''For intervals below 1 second, maximum shares is 100'', w)
              else
                (let (sessionNumber0, w1) = getNextSessionNumber w;
                     entry = \<lparr>status = Queued,
                              totalShares = \<lfloor>amount0\<rfloor>,
                              completedShares = 0,
                              failedShares = None,
                              url = Some (trim url0),
                              interval = Some (toFixed1 interval0),
                              sessionNumber = Some sessionNumber0,
                              cookie = Some cookieString,
                              error = None,
                              amount = None\<rparr>
                 in (\<lparr>res_status = 200,
                      res_message = ''Sharing process queued successfully'',
                      res_sessionId = Some sessionId,
                      res_sessionNumber = Some sessionNumber0\<rparr>,
                     w1\<lparr>queue := AList.update sessionId entry (queue w1)\<rparr>))))"

section \<open>Saving progress\<close>

text \<open>
  The argument of \<open>saveProgress\<close> is an object with some of the keys \<open>status\<close>, \<open>error\<close>,
  \<open>completedShares\<close> and \<open>failedShares\<close>. A key that is absent leaves the stored field as it
  is; the key \<open>failedShares\<close> can be present with the value \<open>undefined\<close> (the runner
  passes the \<open>amount\<close> it read from the session), which the spread then copies over the
  stored field.
\<close>

record progress =
  p_status :: "status option"
  p_error :: "string option"
  p_completedShares :: "int option"
  p_failedShares :: "int option option"

definition newSession :: session where
  "newSession =
     \<lparr>status = Started, totalShares = 0, completedShares = 0, failedShares = Some 0,
      url = None, interval = None, sessionNumber = None, cookie = None, error = None,
      amount = None\<rparr>"

definition mergeProgress :: "session \<Rightarrow> progress \<Rightarrow> session" where
  "mergeProgress s p =
     s\<lparr>status := (case p_status p of None \<Rightarrow> status s | Some x \<Rightarrow> x),
       error := (case p_error p of None \<Rightarrow> error s | Some x \<Rightarrow> Some x),
       completedShares := (case p_completedShares p of None \<Rightarrow> completedShares s | Some x \<Rightarrow> x),
       failedShares := (case p_failedShares p of None \<Rightarrow> failedShares s | Some x \<Rightarrow> x)\<rparr>"

definition storedAfter :: "nat \<Rightarrow> progress \<Rightarrow> world \<Rightarrow> session" where
  "storedAfter sessionId p w =
     mergeProgress (case map_of (sessions w) sessionId of None \<Rightarrow> newSession | Some s \<Rightarrow> s) p"

text \<open>
  \<open>saveProgress\<close> merges the progress object into the session it read (or into a fresh one)
  and hands the whole collection to \<open>writeSessions\<close>. The sessions read from the store
  never hold \<open>undefined\<close>, so the collection to write holds an \<open>undefined\<close> property exactly
  when the progress object has \<open>failedShares: undefined\<close>. The store client then throws
  before anything is sent, \<open>writeSessions\<close> swallows the error, and the store stays as it
  was.
\<close>

definition writeRefused :: "progress \<Rightarrow> bool" where
  "writeRefused p = (p_failedShares p = Some None)"

definition saveProgress :: "nat \<Rightarrow> progress \<Rightarrow> world \<Rightarrow> world" where
  "saveProgress sessionId p w =
     (if writeRefused p then w
      else w\<lparr>sessions := AList.update sessionId (storedAfter sessionId p w) (sessions w)\<rparr>)"

section \<open>The session runner\<close>

text \<open>
  What the runner cannot decide itself comes from the environment: the three setup calls
  (each catches its own errors and answers with a falsy value), and the outcome of the
  \<open>k\<close>-th share scheduled on the rate limiter. \<open>performShare\<close> catches its own errors too,
  so a scheduled share either yields a post identifier, or a falsy value, or the limiter
  itself rejects the job.
\<close>

datatype attempt = ShareOk | ShareFailed | ScheduleRejected string

record env =
  validateCookie :: "string option \<Rightarrow> bool"
  getFacebookToken :: "string option \<Rightarrow> string option"
  getPostId :: "string option \<Rightarrow> string option"
  performShare :: "nat \<Rightarrow> attempt"

text \<open>
  The state threaded through a run: the store, the number of shares scheduled so far, and
  the list of every call of \<open>saveProgress\<close> whose write the store accepted, in order, each
  with the loop index at which it was made (\<open>None\<close> outside the loop) and the session
  object it left in the store. The pacing sleep only spends time and is not modelled.
\<close>

record run =
  run_world :: world
  run_calls :: nat
  run_saves :: "(nat option \<times> session) list"

definition save :: "nat option \<Rightarrow> nat \<Rightarrow> progress \<Rightarrow> run \<Rightarrow> run" where
  "save loopIndex sessionId p r =
     r\<lparr>run_world := saveProgress sessionId p (run_world r),
       run_saves :=
         run_saves r
         @ (if writeRefused p then []
            else [(loopIndex, storedAfter sessionId p (run_world r))])\<rparr>"

definition maxRetries :: nat where
  "maxRetries = 3"

text \<open>
  The retry loop of one action: up to \<open>maxRetries\<close> scheduled shares, stopping at the
  first success. The result is the final value of \<open>success\<close>, or the message of a
  rejection, and the number of shares scheduled so far.
\<close>

fun retryLoop :: "env \<Rightarrow> nat \<Rightarrow> nat \<Rightarrow> (string + bool) \<times> nat" where
  "retryLoop e 0 c = (Inr False, c)"
| "retryLoop e (Suc k) c =
     (case performShare e c of
        ScheduleRejected msg \<Rightarrow> (Inl msg, Suc c)
      | ShareOk \<Rightarrow> (Inr True, Suc c)
      | ShareFailed \<Rightarrow> retryLoop e k (Suc c))"

text \<open>
  The loop condition \<open>i < amount\<close> and the test \<open>i === amount - 1\<close>, where \<open>amount\<close> may be
  \<open>undefined\<close>: both are then false.
\<close>

definition belowAmount :: "nat \<Rightarrow> int option \<Rightarrow> bool" where
  "belowAmount i amount0 = (case amount0 of None \<Rightarrow> False | Some n \<Rightarrow> int i < n)"

definition isLastIndex :: "nat \<Rightarrow> int option \<Rightarrow> bool" where
  "isLastIndex i amount0 = (case amount0 of None \<Rightarrow> False | Some n \<Rightarrow> int i = n - 1)"

definition countsProgress :: "nat \<Rightarrow> nat \<Rightarrow> progress" where
  "countsProgress successCount failedCount =
     \<lparr>p_status = None, p_error = None,
      p_completedShares = Some (int successCount),
      p_failedShares = Some (Some (int failedCount))\<rparr>"

definition terminatedProgress :: "nat \<Rightarrow> nat \<Rightarrow> progress" where
  "terminatedProgress successCount failedCount =
     \<lparr>p_status = Some Terminated,
      p_error = Some ''Terminated due to 10 consecutive failures'',
      p_completedShares = Some (int successCount),
      p_failedShares = Some (Some (int failedCount))\<rparr>"

definition flush :: "nat \<Rightarrow> nat \<Rightarrow> int option \<Rightarrow> nat \<Rightarrow> nat \<Rightarrow> run \<Rightarrow> run" where
  "flush sessionId i amount0 successCount failedCount r =
     (if i mod 5 = 0 \<or> isLastIndex i amount0
      then save (Some i) sessionId (countsProgress successCount failedCount) r
      else r)"

text \<open>
  One iteration of the action loop, from the counters at its start. It continues with new
  counters, or returns from the runner (the circuit breaker), or throws.
\<close>

datatype step = Continue nat nat nat run | Return run | Throw string run

definition loopBody ::
  "env \<Rightarrow> nat \<Rightarrow> int option \<Rightarrow> nat \<Rightarrow> nat \<Rightarrow> nat \<Rightarrow> nat \<Rightarrow> run \<Rightarrow> step" where
  "loopBody e sessionId amount0 i successCount failedCount consecutiveFailures r =
     (case retryLoop e maxRetries (run_calls r) of
        (Inl msg, c) \<Rightarrow> Throw msg (r\<lparr>run_calls := c\<rparr>)
      | (Inr success, c) \<Rightarrow>
          (let r1 = r\<lparr>run_calls := c\<rparr>
           in if success
              then Continue (successCount + 1) failedCount 0
                     (flush sessionId i amount0 (successCount + 1) failedCount r1)
              else if consecutiveFailures + 1 \<ge> MAX_CONSECUTIVE_FAILURES
              then Return (save (Some i) sessionId
                             (terminatedProgress successCount (failedCount + 1)) r1)
              else Continue successCount (failedCount + 1) (consecutiveFailures + 1)
                     (flush sessionId i amount0 successCount (failedCount + 1) r1)))"

datatype loop_exit = Finished nat nat | Stopped | Raised string

function actionLoop ::
  "env \<Rightarrow> nat \<Rightarrow> int option \<Rightarrow> nat \<Rightarrow> nat \<Rightarrow> nat \<Rightarrow> nat \<Rightarrow> run \<Rightarrow> loop_exit \<times> run" where
  "actionLoop e sessionId amount0 i successCount failedCount consecutiveFailures r =
     (if belowAmount i amount0
      then (case loopBody e sessionId amount0 i successCount failedCount consecutiveFailures r of
              Continue sc fc cf r' \<Rightarrow> actionLoop e sessionId amount0 (i + 1) sc fc cf r'
            | Return r' \<Rightarrow> (Stopped, r')
            | Throw msg r' \<Rightarrow> (Raised msg, r'))
      else (Finished successCount failedCount, r))"
  by pat_completeness auto
termination
  by (relation "measure (\<lambda>(e, sessionId, amount0, i, sc, fc, cf, r).
        case amount0 of None \<Rightarrow> 0 | Some n \<Rightarrow> nat (n - int i))")
     (auto simp: belowAmount_def split: option.splits)

declare actionLoop.simps [simp del]

definition failedProgress :: "string \<Rightarrow> int option \<Rightarrow> progress" where
  "failedProgress msg amount0 =
     \<lparr>p_status = Some Failed, p_error = Some msg, p_completedShares = None,
      p_failedShares = Some amount0\<rparr>"

text \<open>
  The \<open>try\<close> block of \<open>processSession\<close>: it returns, or throws with a message.
\<close>

datatype try_exit = Returned | Threw string

definition processSession_try :: "env \<Rightarrow> nat \<Rightarrow> run \<Rightarrow> try_exit \<times> run" where
  "processSession_try e sessionId r =
     (case map_of (sessions (run_world r)) sessionId of
        None \<Rightarrow> (Returned, r)
      | Some session0 \<Rightarrow>
          (let amount0 = amount session0
           in if \<not> validateCookie e (cookie session0)
              then (Returned, save None sessionId (failedProgress ''Invalid cookie'' amount0) r)
              else (case getFacebookToken e (cookie session0) of
                      None \<Rightarrow>
                        (Returned,
                         save None sessionId (failedProgress ''Token retrieval failed'' amount0) r)
                    | Some facebookToken \<Rightarrow>
                        (case getPostId e (url session0) of
                           None \<Rightarrow>
                             (Returned,
                              save None sessionId (failedProgress ''Invalid post ID'' amount0) r)
                         | Some postId \<Rightarrow>
                             (let r1 = save None sessionId
                                         \<lparr>p_status = Some InProgress, p_error = None,
                                          p_completedShares = None, p_failedShares = None\<rparr> r
                              in case actionLoop e sessionId amount0 0 0 0 0 r1 of
                                   (Finished successCount failedCount, r2) \<Rightarrow>
                                     (Returned,
                                      save None sessionId
                                        ((countsProgress successCount failedCount)
                                           \<lparr>p_status := Some Completed\<rparr>) r2)
                                 | (Stopped, r2) \<Rightarrow> (Returned, r2)
                                 | (Raised msg, r2) \<Rightarrow> (Threw msg, r2))))))"

text \<open>
  The \<open>catch\<close> block builds the object \<open>{status: 'failed', error: error.message,
  failedShares: amount}\<close> before it calls \<open>saveProgress\<close>. The name \<open>amount\<close> is declared
  with \<open>const\<close> inside the \<open>try\<close> block and is not in scope in the handler, and no outer
  scope declares it: evaluating it raises a ReferenceError, so \<open>saveProgress\<close> is never
  called and the promise of \<open>processSession\<close> is rejected with that error.
\<close>

datatype settled = Resolved | Rejected string

definition processSession_catch :: "string \<Rightarrow> nat \<Rightarrow> run \<Rightarrow> settled \<times> run" where
  "processSession_catch msg sessionId r = (Rejected ''ReferenceError: amount is not defined'', r)"

definition processSession :: "env \<Rightarrow> nat \<Rightarrow> run \<Rightarrow> settled \<times> run" where
  "processSession e sessionId r =
     (case processSession_try e sessionId r of
        (Returned, r') \<Rightarrow> (Resolved, r')
      | (Threw msg, r') \<Rightarrow> processSession_catch msg sessionId r')"

definition startRun :: "world \<Rightarrow> run" where
  "startRun w = \<lparr>run_world = w, run_calls = 0, run_saves = []\<rparr>"

section \<open>Notions used in the properties\<close>

text \<open>
  The entry the submit handler stores for a request, and the update with which the runner
  marks a session \<open>in_progress\<close>, as named values.
\<close>

definition queuedEntry :: "rat \<Rightarrow> rat \<Rightarrow> string \<Rightarrow> string \<Rightarrow> int \<Rightarrow> session" where
  "queuedEntry a i u c n =
     \<lparr>status = Queued, totalShares = \<lfloor>a\<rfloor>, completedShares = 0, failedShares = None,
      url = Some (trim u), interval = Some (toFixed1 i), sessionNumber = Some n,
      cookie = Some c, error = None, amount = None\<rparr>"

definition inProgressUpdate :: progress where
  "inProgressUpdate =
     \<lparr>p_status = Some InProgress, p_error = None, p_completedShares = None,
      p_failedShares = None\<rparr>"

text \<open>
  The invariant of the counts as the specification words it: completed + failed is at most
  the requested count, and a terminal session has completed + failed equal to the
  requested count unless it is \<open>terminated\<close>. A failed count that is absent reads as 0, as
  the source reads it (\<open>failedShares || 0\<close>).
\<close>

definition failedCount :: "session \<Rightarrow> int" where
  "failedCount s = (case failedShares s of None \<Rightarrow> 0 | Some f \<Rightarrow> f)"

definition isTerminal :: "status \<Rightarrow> bool" where
  "isTerminal st = (st = Completed \<or> st = Failed \<or> st = Terminated)"

definition countsWithinRequest :: "session \<Rightarrow> bool" where
  "countsWithinRequest s =
     (completedShares s + failedCount s \<le> totalShares s \<and>
      (isTerminal (status s) \<longrightarrow>
         completedShares s + failedCount s = totalShares s \<or> status s = Terminated))"

section \<open>Sample stores, requests and environments\<close>

text \<open>
  The concrete inputs on which results are evaluated. The sample request passes the
  cookie and URL checks; \<open>noJson\<close> is a parser on which the cookie string is not JSON.
\<close>

definition sampleRequest :: "rat \<Rightarrow> rat \<Rightarrow> request" where
  "sampleRequest a i =
     \<lparr>req_cookie = JStr ''xs=1'', req_url = JStr ''https://facebook.com/p'',
      req_amount = JNum a, req_interval = JNum i\<rparr>"

definition noJson :: "string \<Rightarrow> (string \<times> string) list option" where
  "noJson str = None"

definition sampleSession :: "status \<Rightarrow> int \<Rightarrow> int \<Rightarrow> int option \<Rightarrow> session" where
  "sampleSession st n c f =
     \<lparr>status = st, totalShares = n, completedShares = c, failedShares = f,
      url = Some ''https://facebook.com/p'', interval = Some 1, sessionNumber = Some 1,
      cookie = Some ''xs=1'', error = None, amount = None\<rparr>"

definition emptyWorld :: world where
  "emptyWorld = \<lparr>sessions = [], sessionCounter = Some 0, queue = []\<rparr>"

definition restartWorld :: world where
  "restartWorld =
     \<lparr>sessions = [(123456, sampleSession InProgress 5 0 None),
                  (654321, sampleSession Completed 3 3 (Some 0))],
      sessionCounter = Some 2, queue = []\<rparr>"

definition idleWorld :: world where
  "idleWorld =
     \<lparr>sessions = [(654321, sampleSession Completed 3 3 (Some 0))],
      sessionCounter = Some 1, queue = []\<rparr>"

text \<open>
  Stores reached by running the code: one session submitted to an empty store and
  admitted; one session submitted after an earlier one has finished, admitted and marked
  \<open>in_progress\<close>; two sessions submitted one after the other.
\<close>

definition submittedWorld :: world where
  "submittedWorld =
     snd (processQueue 4 (snd (submit noJson 123456 (sampleRequest 5 1) emptyWorld)))"

definition firstActiveWorld :: world where
  "firstActiveWorld =
     saveProgress 123456 inProgressUpdate
       (snd (processQueue 4 (snd (submit noJson 123456 (sampleRequest 5 1) idleWorld))))"

definition twoQueued :: world where
  "twoQueued =
     snd (submit noJson 100000 (sampleRequest 5 1)
            (snd (submit noJson 900000 (sampleRequest 5 1) emptyWorld)))"

definition restartedSession :: session where
  "restartedSession =
     (queuedEntry 5 1 ''https://facebook.com/p'' ''xs=1'' 1)
       \<lparr>status := Failed, error := Some ''Server restart interrupted this session''\<rparr>"

text \<open>
  A stored session that carries the field \<open>amount\<close> the runner reads, and environments in
  which the setup calls succeed or the credential check fails, and every scheduled share
  fails, or succeeds, or the first one is rejected by the limiter.
\<close>

definition storedSession :: "int \<Rightarrow> session" where
  "storedSession n = (sampleSession Queued n 0 None)\<lparr>amount := Some n\<rparr>"

definition runnerWorld :: "int \<Rightarrow> world" where
  "runnerWorld n = \<lparr>sessions = [(123456, storedSession n)], sessionCounter = Some 1, queue = []\<rparr>"


definition alwaysShares :: "nat \<Rightarrow> attempt" where
  "alwaysShares k = ShareOk"

definition rejectsFirst :: "nat \<Rightarrow> attempt" where
  "rejectsFirst k = (if k = 0 then ScheduleRejected ''limiter stopped'' else ShareOk)"

definition sampleToken :: "string option \<Rightarrow> string option" where
  "sampleToken c = Some ''xs=1|EAAGt''"

definition samplePostId :: "string option \<Rightarrow> string option" where
  "samplePostId u = Some ''1''"

definition cookieAlive :: "string option \<Rightarrow> bool" where
  "cookieAlive c = True"

definition cookieDead :: "string option \<Rightarrow> bool" where
  "cookieDead c = False"

definition sampleEnv :: "(string option \<Rightarrow> bool) \<Rightarrow> (nat \<Rightarrow> attempt) \<Rightarrow> env" where
  "sampleEnv alive share =
     \<lparr>validateCookie = alive, getFacebookToken = sampleToken, getPostId = samplePostId,
      performShare = share\<rparr>"

section \<open>Properties\<close>

subsection \<open>Collections and sequence numbers\<close>

lemma Object_values_sound:
  "x \<in> set (Object_values al) \<Longrightarrow> \<exists>k. map_of al k = Some x"
  by (auto simp: Object_values_def List.map_filter_def)

lemma Object_keys_map [simp]:
  "Object_keys (map (\<lambda>(k, v). (k, f v)) al) = Object_keys al"
proof -
  have "map fst (map (\<lambda>(k, v). (k, f v)) al) = map fst al"
    by (induction al) auto
  then show ?thesis unfolding Object_keys_def by (simp only:)
qed

lemma Object_values_map:
  "Object_values (map (\<lambda>(k, v). (k, f v)) al) = map f (Object_values al)"
  by (simp add: Object_values_def map_of_map List.map_filter_def filter_map comp_def
      option.map_sel)

lemma getNextSessionNumber_idle:
  "filter isActive (Object_values (sessions w)) = [] \<Longrightarrow> fst (getNextSessionNumber w) = 1"
  by (cases "sessionCounter w") (auto simp: getNextSessionNumber_def Let_def)

lemma getNextSessionNumber_queue [simp]: "queue (snd (getNextSessionNumber w)) = queue w"
  by (simp add: getNextSessionNumber_def Let_def)

lemma getNextSessionNumber_sessions [simp]: "sessions (snd (getNextSessionNumber w)) = sessions w"
  by (simp add: getNextSessionNumber_def Let_def)

lemma getNextSessionNumber_emptyWorld:
  "getNextSessionNumber emptyWorld = (1, emptyWorld\<lparr>sessionCounter := Some 1\<rparr>)"
  by (simp add: getNextSessionNumber_def emptyWorld_def Object_values_def Object_keys_def
      )

lemma getNextSessionNumber_idleWorld:
  "getNextSessionNumber idleWorld = (1, idleWorld\<lparr>sessionCounter := Some 0\<rparr>)"
  by (simp add: getNextSessionNumber_def idleWorld_def Object_values_def Object_keys_def
      List.map_filter_simps isActive_def sampleSession_def)

subsection \<open>Startup recovery\<close>

lemma isActive_recoverSession: "isActive (recoverSession s) \<longleftrightarrow> status s = Started"
  by (simp add: isActive_def recoverSession_def)

lemma startup_sessions:
  "sessions (startup w) = map (\<lambda>(id, s). (id, recoverSession s)) (sessions w)"
  by (simp add: startup_def Let_def)

lemma startup_queue: "queue (startup w) = queue w"
  by (simp add: startup_def Let_def)

lemma startup_lookup:
  "map_of (sessions (startup w)) k = map_option recoverSession (map_of (sessions w) k)"
  by (simp add: startup_sessions map_of_map)

lemma startup_counter:
  assumes "filter isActive (Object_values (sessions (startup w))) = []"
  shows "sessionCounter (startup w) = Some 0"
proof -
  from assms
  have "filter isActive (Object_values (map (\<lambda>(id, s). (id, recoverSession s)) (sessions w))) = []"
    by (simp add: startup_sessions)
  then show ?thesis by (simp add: startup_def Let_def)
qed

lemma startup_idle:
  assumes "\<forall>k s. map_of (sessions w) k = Some s \<longrightarrow> status s \<noteq> Started"
  shows "filter isActive (Object_values (sessions (startup w))) = []"
proof -
  have "\<not> isActive (recoverSession x)" if "x \<in> set (Object_values (sessions w))" for x
    using that assms Object_values_sound[of x "sessions w"] by (auto simp: isActive_recoverSession)
  then show ?thesis
    by (simp add: startup_sessions Object_values_map filter_empty_conv)
qed

text \<open>
  C9. On process start every stored session whose status is \<open>in_progress\<close> becomes \<open>failed\<close>
  with the error text "Server restart interrupted this session", and every other session
  is left as it is. When no session is active after that (none is \<open>started\<close>), the counter is
  0 and the next call of \<open>getNextSessionNumber\<close> yields 1. The queue is untouched.
\<close>

theorem startup_recovery:
  "(\<forall>k s. map_of (sessions w) k = Some s \<longrightarrow>
      map_of (sessions (startup w)) k =
        Some (if status s = InProgress
              then s\<lparr>status := Failed, error := Some ''Server restart interrupted this session''\<rparr>
              else s))
   \<and> ((\<forall>k s. map_of (sessions w) k = Some s \<longrightarrow> status s \<noteq> Started) \<longrightarrow>
        sessionCounter (startup w) = Some 0 \<and> fst (getNextSessionNumber (startup w)) = 1)
   \<and> queue (startup w) = queue w"
proof (intro conjI allI impI)
  fix k s assume "map_of (sessions w) k = Some s"
  then show "map_of (sessions (startup w)) k =
        Some (if status s = InProgress
              then s\<lparr>status := Failed, error := Some ''Server restart interrupted this session''\<rparr>
              else s)"
    by (simp add: startup_lookup recoverSession_def)
next
  assume a: "\<forall>k s. map_of (sessions w) k = Some s \<longrightarrow> status s \<noteq> Started"
  show "sessionCounter (startup w) = Some 0"
    by (rule startup_counter) (rule startup_idle[OF a])
  show "fst (getNextSessionNumber (startup w)) = 1"
    by (rule getNextSessionNumber_idle) (rule startup_idle[OF a])
next
  show "queue (startup w) = queue w" by (rule startup_queue)
qed

lemma restartWorld_lookup:
  "map_of (sessions restartWorld) k = Some s \<longleftrightarrow>
     (k = 123456 \<and> s = sampleSession InProgress 5 0 None) \<or>
     (k = 654321 \<and> s = sampleSession Completed 3 3 (Some 0))"
  by (auto simp: restartWorld_def)

theorem startup_recovery_witness:
  "map_of (sessions restartWorld) 123456 = Some (sampleSession InProgress 5 0 None)
   \<and> map_of (sessions restartWorld) 654321 = Some (sampleSession Completed 3 3 (Some 0))
   \<and> map_of (sessions (startup restartWorld)) 123456 =
        Some ((sampleSession InProgress 5 0 None)
                \<lparr>status := Failed, error := Some ''Server restart interrupted this session''\<rparr>)
   \<and> map_of (sessions (startup restartWorld)) 654321 = Some (sampleSession Completed 3 3 (Some 0))
   \<and> sessionCounter restartWorld = Some 2
   \<and> sessionCounter (startup restartWorld) = Some 0
   \<and> fst (getNextSessionNumber (startup restartWorld)) = 1"
proof -
  have l1: "map_of (sessions restartWorld) 123456 = Some (sampleSession InProgress 5 0 None)"
    and l2: "map_of (sessions restartWorld) 654321 = Some (sampleSession Completed 3 3 (Some 0))"
    by (simp_all add: restartWorld_lookup)
  have idle: "\<forall>k s. map_of (sessions restartWorld) k = Some s \<longrightarrow> status s \<noteq> Started"
    by (auto simp: restartWorld_lookup sampleSession_def)
  note r = startup_recovery[of restartWorld]
  from r l1 have a: "map_of (sessions (startup restartWorld)) 123456 =
        Some ((sampleSession InProgress 5 0 None)
                \<lparr>status := Failed, error := Some ''Server restart interrupted this session''\<rparr>)"
    by (simp add: sampleSession_def)
  from r l2 have b: "map_of (sessions (startup restartWorld)) 654321 = Some (sampleSession Completed 3 3 (Some 0))"
    by (simp add: sampleSession_def)
  from r idle have c: "sessionCounter (startup restartWorld) = Some 0 \<and> fst (getNextSessionNumber (startup restartWorld)) = 1"
    by blast
  have d: "sessionCounter restartWorld = Some 2" by (simp add: restartWorld_def)
  from l1 l2 a b c d show ?thesis by blast
qed

subsection \<open>Submission\<close>

lemma submit_accepted:
  assumes "typedBody rq = Some (c, u, a, i)"
    and "list_ex (includesStr (cookieStringOf P c)) requiredCookieKeys"
    and "matchesFacebookUrl u"
    and "0 < a" and "1 / 10 \<le> i" and "i \<le> 60" and "1 \<le> i \<or> a \<le> 100"
  shows "submit P sid rq w =
     (\<lparr>res_status = 200, res_message = ''Sharing process queued successfully'',
       res_sessionId = Some sid, res_sessionNumber = Some (fst (getNextSessionNumber w))\<rparr>,
      (snd (getNextSessionNumber w))
        \<lparr>queue := AList.update sid
           (queuedEntry a i u (cookieStringOf P c) (fst (getNextSessionNumber w))) (queue w)\<rparr>)"
  using assms
  by (auto simp: submit_def queuedEntry_def Let_def split_beta)

lemma submit_status:
  "res_status (fst (submit P sid rq w)) = 200 \<or>
   (res_status (fst (submit P sid rq w)) = 400 \<and> snd (submit P sid rq w) = w)"
  by (auto simp: submit_def apiResponse_def Let_def split_beta split: option.splits)

lemma submit_200D:
  assumes "res_status (fst (submit P sid rq w)) = 200"
  shows "\<exists>c u a i. typedBody rq = Some (c, u, a, i)
           \<and> list_ex (includesStr (cookieStringOf P c)) requiredCookieKeys
           \<and> matchesFacebookUrl u
           \<and> 0 < a \<and> 1 / 10 \<le> i \<and> i \<le> 60 \<and> (1 \<le> i \<or> a \<le> 100)"
  using assms
  by (auto simp: submit_def apiResponse_def Let_def split_beta split: option.splits if_splits)

lemma typedBodyD:
  "typedBody rq = Some (c, u, a, i) \<Longrightarrow>
     req_url rq = JStr u \<and> req_amount rq = JNum a \<and> req_interval rq = JNum i"
  by (auto simp: typedBody_def split: jsval.splits)

lemma toFixed1_tenths: "\<exists>k::int. toFixed1 x = of_int k / 10"
  by (auto simp: toFixed1_def) (metis of_int_minus)

lemma toFixed1_near: "\<bar>toFixed1 x - x\<bar> \<le> 1 / 20"
proof (cases "x < 0")
  case False
  define k where "k = rat_of_int \<lfloor>x * 10 + 1 / 2\<rfloor>"
  have e: "toFixed1 x = k / 10" using False by (simp add: toFixed1_def k_def)
  have "k \<le> x * 10 + 1 / 2" unfolding k_def by (rule of_int_floor_le)
  moreover have "x * 10 + 1 / 2 < k + 1" unfolding k_def by linarith
  ultimately show ?thesis unfolding e abs_le_iff by (intro conjI; linarith)
next
  case True
  define k where "k = rat_of_int \<lfloor>- x * 10 + 1 / 2\<rfloor>"
  have e: "toFixed1 x = - (k / 10)" using True by (simp add: toFixed1_def k_def)
  have "k \<le> - x * 10 + 1 / 2" unfolding k_def by (rule of_int_floor_le)
  moreover have "- x * 10 + 1 / 2 < k + 1" unfolding k_def by linarith
  ultimately show ?thesis unfolding e abs_le_iff by (intro conjI; linarith)
qed

lemma sample_cookie_ok: "list_ex (includesStr (cookieStringOf noJson (JStr ''xs=1''))) requiredCookieKeys"
  by (simp add: requiredCookieKeys_def cookieStringOf_def noJson_def)

lemma sample_url_ok: "matchesFacebookUrl ''https://facebook.com/p''"
  by (simp add: matchesFacebookUrl_def toLower_def)

lemma sample_typed:
  "typedBody (sampleRequest a i) = Some (JStr ''xs=1'', ''https://facebook.com/p'', a, i)"
  by (simp add: typedBody_def sampleRequest_def)

lemma sample_submit:
  assumes "0 < a" and "1 / 10 \<le> i" and "i \<le> 60" and "1 \<le> i \<or> a \<le> 100"
  shows "submit noJson sid (sampleRequest a i) w =
     (\<lparr>res_status = 200, res_message = ''Sharing process queued successfully'',
       res_sessionId = Some sid, res_sessionNumber = Some (fst (getNextSessionNumber w))\<rparr>,
      (snd (getNextSessionNumber w))
        \<lparr>queue := AList.update sid
           (queuedEntry a i ''https://facebook.com/p'' ''xs=1'' (fst (getNextSessionNumber w)))
           (queue w)\<rparr>)"
proof -
  have c: "cookieStringOf noJson (JStr ''xs=1'') = ''xs=1''"
    by (simp add: cookieStringOf_def noJson_def)
  show ?thesis
    using submit_accepted[OF sample_typed sample_cookie_ok sample_url_ok assms, of sid w]
    by (simp only: c)
qed

text \<open>
  C6. A request whose amount is not a number greater than 0, or whose interval is not a
  number in [0.1, 60], or whose interval is below 1 while the amount exceeds 100, is
  answered with status 400 and leaves the store as it was. For a request that passes the
  type, cookie and URL checks: amount 150 at interval 0.5 gets the 400 response with the
  message "For intervals below 1 second, maximum shares is 100"; amount 100 at interval
  0.5, and amount 1 at any interval in [0.1, 60], get status 200 and a \<open>queued\<close> entry
  under the new identifier.
\<close>

theorem submit_validation:
  "((\<forall>a. req_amount rq = JNum a \<longrightarrow> a \<le> 0)
      \<or> (\<forall>i. req_interval rq = JNum i \<longrightarrow> i < 1 / 10 \<or> 60 < i)
      \<or> (\<exists>a i. req_amount rq = JNum a \<and> req_interval rq = JNum i \<and> i < 1 \<and> 100 < a)
     \<longrightarrow> res_status (fst (submit P sid rq w)) = 400 \<and> snd (submit P sid rq w) = w)
   \<and> (typedBody rq = Some (c, u, a, i)
        \<and> list_ex (includesStr (cookieStringOf P c)) requiredCookieKeys
        \<and> matchesFacebookUrl u
      \<longrightarrow> (a = 150 \<and> i = 1 / 2 \<longrightarrow>
             submit P sid rq w =
               (apiResponse 400 ''For intervals below 1 second, maximum shares is 100'', w))
        \<and> ((a = 100 \<and> i = 1 / 2) \<or> (a = 1 \<and> 1 / 10 \<le> i \<and> i \<le> 60) \<longrightarrow>
             res_status (fst (submit P sid rq w)) = 200
             \<and> (\<exists>entry. map_of (queue (snd (submit P sid rq w))) sid = Some entry
                   \<and> status entry = Queued \<and> totalShares entry = \<lfloor>a\<rfloor>)))"
proof -
  have p1: "res_status (fst (submit P sid rq w)) = 400 \<and> snd (submit P sid rq w) = w"
    if bad: "(\<forall>a. req_amount rq = JNum a \<longrightarrow> a \<le> 0)
      \<or> (\<forall>i. req_interval rq = JNum i \<longrightarrow> i < 1 / 10 \<or> 60 < i)
      \<or> (\<exists>a i. req_amount rq = JNum a \<and> req_interval rq = JNum i \<and> i < 1 \<and> 100 < a)"
  proof -
    have "res_status (fst (submit P sid rq w)) \<noteq> 200"
    proof
      assume "res_status (fst (submit P sid rq w)) = 200"
      from submit_200D[OF this] obtain c' u' a' i' where
        t: "typedBody rq = Some (c', u', a', i')" and
        n: "0 < a'" "1 / 10 \<le> i'" "i' \<le> 60" "1 \<le> i' \<or> a' \<le> 100"
        by blast
      from typedBodyD[OF t] have "req_amount rq = JNum a'" "req_interval rq = JNum i'"
        by simp_all
      with bad n show False by auto
    qed
    with submit_status[of P sid rq w] show ?thesis by blast
  qed
  have p2: "submit P sid rq w =
               (apiResponse 400 ''For intervals below 1 second, maximum shares is 100'', w)"
    if "typedBody rq = Some (c, u, a, i)"
      "list_ex (includesStr (cookieStringOf P c)) requiredCookieKeys"
      "matchesFacebookUrl u" "a = 150" "i = 1 / 2"
    using that by (simp add: submit_def)
  have p3: "res_status (fst (submit P sid rq w)) = 200
             \<and> (\<exists>entry. map_of (queue (snd (submit P sid rq w))) sid = Some entry
                   \<and> status entry = Queued \<and> totalShares entry = \<lfloor>a\<rfloor>)"
    if o: "typedBody rq = Some (c, u, a, i)"
      "list_ex (includesStr (cookieStringOf P c)) requiredCookieKeys"
      "matchesFacebookUrl u"
      and v: "(a = 100 \<and> i = 1 / 2) \<or> (a = 1 \<and> 1 / 10 \<le> i \<and> i \<le> 60)"
  proof -
    from v have n: "0 < a" "1 / 10 \<le> i" "i \<le> 60" "1 \<le> i \<or> a \<le> 100" by auto
    note eq = submit_accepted[OF o n, of sid w]
    show ?thesis by (simp add: eq update_conv' queuedEntry_def)
  qed
  from p1 p2 p3 show ?thesis by blast
qed

theorem submit_validation_witness:
  "res_status (fst (submit noJson 123456 (sampleRequest 0 1) emptyWorld)) = 400
   \<and> snd (submit noJson 123456 (sampleRequest 0 1) emptyWorld) = emptyWorld
   \<and> submit noJson 123456 (sampleRequest 150 (1 / 2)) emptyWorld =
       (apiResponse 400 ''For intervals below 1 second, maximum shares is 100'', emptyWorld)
   \<and> res_status (fst (submit noJson 123456 (sampleRequest 100 (1 / 2)) emptyWorld)) = 200
   \<and> (\<exists>entry. map_of (queue (snd (submit noJson 123456 (sampleRequest 100 (1 / 2)) emptyWorld))) 123456
                  = Some entry \<and> status entry = Queued \<and> totalShares entry = 100)
   \<and> res_status (fst (submit noJson 123456 (sampleRequest 1 1) emptyWorld)) = 200"
proof -
  have bad: "(\<forall>a. req_amount (sampleRequest 0 1) = JNum a \<longrightarrow> a \<le> 0)"
    by (simp add: sampleRequest_def)
  from submit_validation[of "sampleRequest 0 1" noJson 123456 emptyWorld] bad
  have r1: "res_status (fst (submit noJson 123456 (sampleRequest 0 1) emptyWorld)) = 400
     \<and> snd (submit noJson 123456 (sampleRequest 0 1) emptyWorld) = emptyWorld"
    by blast
  have r2: "submit noJson 123456 (sampleRequest 150 (1 / 2)) emptyWorld =
       (apiResponse 400 ''For intervals below 1 second, maximum shares is 100'', emptyWorld)"
    using submit_validation[of "sampleRequest 150 (1 / 2)" noJson 123456 emptyWorld
        "JStr ''xs=1''" "''https://facebook.com/p''" 150 "1 / 2"]
      sample_typed[of 150 "1 / 2"] sample_cookie_ok sample_url_ok
    by blast
  have r3: "res_status (fst (submit noJson 123456 (sampleRequest 100 (1 / 2)) emptyWorld)) = 200
      \<and> (\<exists>entry. map_of (queue (snd (submit noJson 123456 (sampleRequest 100 (1 / 2)) emptyWorld))) 123456
                  = Some entry \<and> status entry = Queued \<and> totalShares entry = \<lfloor>100::rat\<rfloor>)"
    using submit_validation[of "sampleRequest 100 (1 / 2)" noJson 123456 emptyWorld
        "JStr ''xs=1''" "''https://facebook.com/p''" 100 "1 / 2"]
      sample_typed[of 100 "1 / 2"] sample_cookie_ok sample_url_ok
    by blast
  have r4: "res_status (fst (submit noJson 123456 (sampleRequest 1 1) emptyWorld)) = 200"
    using submit_validation[of "sampleRequest 1 1" noJson 123456 emptyWorld
        "JStr ''xs=1''" "''https://facebook.com/p''" 1 1]
      sample_typed[of 1 1] sample_cookie_ok sample_url_ok
    by simp
  from r1 r2 r3 r4 show ?thesis by simp
qed

text \<open>
  C10. An accepted submission stores under the new identifier an entry whose
  \<open>totalShares\<close> is the floor of the submitted amount and whose \<open>interval\<close> is the submitted
  interval rounded to one decimal place (a whole number of tenths at distance at most
  0.05). So a request that passes the other checks with an amount strictly between 0 and
  1 is accepted and stored with \<open>totalShares\<close> 0.
\<close>

theorem submit_stores_floor:
  "(res_status (fst (submit P sid rq w)) = 200 \<longrightarrow>
      (\<exists>a i entry. req_amount rq = JNum a \<and> req_interval rq = JNum i
          \<and> map_of (queue (snd (submit P sid rq w))) sid = Some entry
          \<and> totalShares entry = \<lfloor>a\<rfloor>
          \<and> interval entry = Some (toFixed1 i)
          \<and> (\<exists>k::int. toFixed1 i = of_int k / 10)
          \<and> \<bar>toFixed1 i - i\<bar> \<le> 1 / 20))
   \<and> (typedBody rq = Some (c, u, a, i)
        \<and> list_ex (includesStr (cookieStringOf P c)) requiredCookieKeys
        \<and> matchesFacebookUrl u
        \<and> 0 < a \<and> a < 1 \<and> 1 / 10 \<le> i \<and> i \<le> 60
      \<longrightarrow> res_status (fst (submit P sid rq w)) = 200
          \<and> (\<exists>entry. map_of (queue (snd (submit P sid rq w))) sid = Some entry
                \<and> totalShares entry = 0))"
proof -
  have p1: "\<exists>a i entry. req_amount rq = JNum a \<and> req_interval rq = JNum i
          \<and> map_of (queue (snd (submit P sid rq w))) sid = Some entry
          \<and> totalShares entry = \<lfloor>a\<rfloor>
          \<and> interval entry = Some (toFixed1 i)
          \<and> (\<exists>k::int. toFixed1 i = of_int k / 10)
          \<and> \<bar>toFixed1 i - i\<bar> \<le> 1 / 20"
    if acc: "res_status (fst (submit P sid rq w)) = 200"
  proof -
  from submit_200D[OF acc] obtain c' u' a' i' where
    t: "typedBody rq = Some (c', u', a', i')"
    and o: "list_ex (includesStr (cookieStringOf P c')) requiredCookieKeys" "matchesFacebookUrl u'"
    and n: "0 < a'" "1 / 10 \<le> i'" "i' \<le> 60" "1 \<le> i' \<or> a' \<le> 100"
    by blast
  note eq = submit_accepted[OF t o n, of sid w]
  from typedBodyD[OF t] have f: "req_amount rq = JNum a'" "req_interval rq = JNum i'"
    by simp_all
  have "map_of (queue (snd (submit P sid rq w))) sid =
          Some (queuedEntry a' i' u' (cookieStringOf P c') (fst (getNextSessionNumber w)))"
    by (simp add: eq update_conv')
  moreover have "totalShares (queuedEntry a' i' u' (cookieStringOf P c') (fst (getNextSessionNumber w))) = \<lfloor>a'\<rfloor>"
    "interval (queuedEntry a' i' u' (cookieStringOf P c') (fst (getNextSessionNumber w))) = Some (toFixed1 i')"
    by (simp_all add: queuedEntry_def)
  ultimately show ?thesis
    using f toFixed1_tenths[of i'] toFixed1_near[of i'] by blast
  qed
  have p2: "res_status (fst (submit P sid rq w)) = 200
          \<and> (\<exists>entry. map_of (queue (snd (submit P sid rq w))) sid = Some entry
                \<and> totalShares entry = 0)"
    if h: "typedBody rq = Some (c, u, a, i)
        \<and> list_ex (includesStr (cookieStringOf P c)) requiredCookieKeys
        \<and> matchesFacebookUrl u
        \<and> 0 < a \<and> a < 1 \<and> 1 / 10 \<le> i \<and> i \<le> 60"
  proof -
  from h have o: "typedBody rq = Some (c, u, a, i)"
    "list_ex (includesStr (cookieStringOf P c)) requiredCookieKeys" "matchesFacebookUrl u"
    and n: "0 < a" "1 / 10 \<le> i" "i \<le> 60" "1 \<le> i \<or> a \<le> 100"
    by auto
  note eq = submit_accepted[OF o n, of sid w]
  from h have fl: "\<lfloor>a\<rfloor> = 0" by (simp add: floor_eq_iff)
  show ?thesis
    by (simp add: eq update_conv' queuedEntry_def fl)
  qed
  from p1 p2 show ?thesis by blast
qed

theorem submit_stores_floor_witness:
  "res_status (fst (submit noJson 123456 (sampleRequest (1 / 2) (1 / 4)) emptyWorld)) = 200
   \<and> (\<exists>entry. map_of (queue (snd (submit noJson 123456 (sampleRequest (1 / 2) (1 / 4)) emptyWorld))) 123456
         = Some entry \<and> totalShares entry = 0 \<and> interval entry = Some (3 / 10))"
proof -
  note r = submit_stores_floor[of noJson 123456 "sampleRequest (1 / 2) (1 / 4)" emptyWorld
        "JStr ''xs=1''" "''https://facebook.com/p''" "1 / 2" "1 / 4"]
  have ok: "res_status (fst (submit noJson 123456 (sampleRequest (1 / 2) (1 / 4)) emptyWorld)) = 200"
    using r sample_typed[of "1 / 2" "1 / 4"] sample_cookie_ok sample_url_ok by simp
  with r obtain a i entry where
    e: "req_amount (sampleRequest (1 / 2) (1 / 4)) = JNum a"
       "req_interval (sampleRequest (1 / 2) (1 / 4)) = JNum i"
       "map_of (queue (snd (submit noJson 123456 (sampleRequest (1 / 2) (1 / 4)) emptyWorld))) 123456 = Some entry"
       "totalShares entry = \<lfloor>a\<rfloor>" "interval entry = Some (toFixed1 i)"
    by blast
  from e(1,2) have av: "a = 1 / 2" and iv: "i = 1 / 4" by (simp_all add: sampleRequest_def)
  have fl: "\<lfloor>1 / 2 :: rat\<rfloor> = 0" by (simp add: floor_eq_iff)
  have tf: "toFixed1 (1 / 4) = 3 / 10" by (simp add: toFixed1_def floor_eq_iff)
  have t: "totalShares entry = 0" unfolding e(4) av by (rule fl)
  have v: "interval entry = Some (3 / 10)" unfolding e(5) iv tf by (rule refl)
  from ok e(3) t v show ?thesis by blast
qed

subsection \<open>Sequence numbers while a session is active\<close>

lemma firstActiveWorld_eq:
  "firstActiveWorld =
     \<lparr>sessions = [(654321, sampleSession Completed 3 3 (Some 0)),
                  (123456, (queuedEntry 5 1 ''https://facebook.com/p'' ''xs=1'' 1)
                              \<lparr>status := InProgress\<rparr>)],
      sessionCounter = Some 0, queue = []\<rparr>"
  by (simp add: firstActiveWorld_def sample_submit getNextSessionNumber_idleWorld)
     (simp add: processQueue_def idleWorld_def Object_values_def Object_keys_def List.map_filter_simps
      isActive_def sampleSession_def MAX_PARALLEL_SESSIONS_def saveProgress_def storedAfter_def
      mergeProgress_def inProgressUpdate_def queuedEntry_def writeRefused_def)

text \<open>
  C3, evaluated. One session has finished and the counter stands at 1. A submission now
  finds no active session and gets number 1, but leaves the counter at 0. Once that
  session is admitted and \<open>in_progress\<close>, the next submission gets number 1 again, not 2.
\<close>

theorem sequence_number_repeats:
  "res_sessionNumber (fst (submit noJson 123456 (sampleRequest 5 1) idleWorld)) = Some 1
   \<and> map_option status (map_of (sessions firstActiveWorld) 123456) = Some InProgress
   \<and> sessionCounter firstActiveWorld = Some 0
   \<and> res_sessionNumber (fst (submit noJson 234567 (sampleRequest 5 1) firstActiveWorld)) = Some 1"
proof -
  have n2: "fst (getNextSessionNumber firstActiveWorld) = 1"
    by (simp add: firstActiveWorld_eq getNextSessionNumber_def Object_values_def Object_keys_def
      List.map_filter_simps isActive_def sampleSession_def queuedEntry_def)
  show ?thesis
    by (simp add: sample_submit getNextSessionNumber_idleWorld n2)
       (simp add: firstActiveWorld_eq)
qed

subsection \<open>Admission\<close>

lemma twoQueued_eq:
  "twoQueued =
     \<lparr>sessions = [], sessionCounter = Some 0,
      queue = [(900000, queuedEntry 5 1 ''https://facebook.com/p'' ''xs=1'' 1),
               (100000, queuedEntry 5 1 ''https://facebook.com/p'' ''xs=1'' 1)]\<rparr>"
  by (simp add: twoQueued_def sample_submit getNextSessionNumber_emptyWorld)
     (simp add: emptyWorld_def getNextSessionNumber_def Object_values_def Object_keys_def
      List.map_filter_simps)

text \<open>
  C5, evaluated. Two sessions are submitted, identifier 900000 first and 100000 second.
  The queue holds them in that order of insertion, and the next admission promotes
  100000, the second one enqueued: \<open>Object.keys(queue)[0]\<close> is the smallest identifier.
\<close>

theorem admission_not_fifo:
  "map fst (queue twoQueued) = [900000, 100000]
   \<and> fst (processQueue 4 twoQueued) = Some 100000
   \<and> map fst (sessions (snd (processQueue 4 twoQueued))) = [100000]
   \<and> map fst (queue (snd (processQueue 4 twoQueued))) = [900000]"
  by (simp add: twoQueued_eq processQueue_def Object_values_def Object_keys_def
      List.map_filter_simps MAX_PARALLEL_SESSIONS_def)

subsection \<open>Saving progress\<close>

lemma storedAfter_present:
  "map_of (sessions w) sid = Some s \<Longrightarrow> storedAfter sid p w = mergeProgress s p"
  by (simp add: storedAfter_def)

lemma writeRefused_simps [simp]:
  "\<not> writeRefused inProgressUpdate"
  "\<not> writeRefused (countsProgress sc fc)"
  "\<not> writeRefused (terminatedProgress sc fc)"
  "writeRefused (failedProgress msg a) \<longleftrightarrow> a = None"
  "writeRefused (p\<lparr>p_status := st\<rparr>) \<longleftrightarrow> writeRefused p"
  "writeRefused \<lparr>p_status = st, p_error = er, p_completedShares = c, p_failedShares = f\<rparr>
     \<longleftrightarrow> f = Some None"
  by (simp_all add: writeRefused_def inProgressUpdate_def countsProgress_def
      terminatedProgress_def failedProgress_def)

lemma saveProgress_refused: "writeRefused p \<Longrightarrow> saveProgress sid p w = w"
  by (simp add: saveProgress_def)

lemma saveProgress_lookup:
  "map_of (sessions (saveProgress sid p w)) k =
     (if \<not> writeRefused p \<and> k = sid then Some (storedAfter sid p w)
      else map_of (sessions w) k)"
  by (simp add: saveProgress_def update_conv')

lemma save_simps [simp]:
  "run_saves (save ix sid p r) =
     run_saves r @ (if writeRefused p then [] else [(ix, storedAfter sid p (run_world r))])"
  "run_calls (save ix sid p r) = run_calls r"
  "run_world (save ix sid p r) = saveProgress sid p (run_world r)"
  by (simp_all add: save_def)

lemma startRun_simps [simp]:
  "run_world (startRun w) = w" "run_calls (startRun w) = 0" "run_saves (startRun w) = []"
  by (simp_all add: startRun_def)

lemma flush_calls [simp]: "run_calls (flush sid i a sc fc r) = run_calls r"
  by (simp add: flush_def)


subsection \<open>The runner on a submitted session\<close>

lemma processSession_setup_ok:
  assumes "map_of (sessions w) sid = Some s"
    and "validateCookie e (cookie s)"
    and "getFacebookToken e (cookie s) = Some t"
    and "getPostId e (url s) = Some p"
  shows "processSession e sid (startRun w) =
     (case actionLoop e sid (amount s) 0 0 0 0 (save None sid inProgressUpdate (startRun w)) of
        (Finished sc fc, r2) \<Rightarrow>
          (Resolved, save None sid ((countsProgress sc fc)\<lparr>p_status := Some Completed\<rparr>) r2)
      | (Stopped, r2) \<Rightarrow> (Resolved, r2)
      | (Raised msg, r2) \<Rightarrow> (Rejected ''ReferenceError: amount is not defined'', r2))"
  using assms
  by (simp add: processSession_def processSession_try_def processSession_catch_def Let_def
      inProgressUpdate_def split: prod.splits loop_exit.splits)

lemma actionLoop_undefined:
  "actionLoop e sid None i sc fc cf r = (Finished sc fc, r)"
  by (simp add: actionLoop.simps belowAmount_def)

lemma submittedWorld_eq:
  "submittedWorld =
     \<lparr>sessions = [(123456, queuedEntry 5 1 ''https://facebook.com/p'' ''xs=1'' 1)],
      sessionCounter = Some 1, queue = []\<rparr>"
  by (simp add: submittedWorld_def sample_submit getNextSessionNumber_emptyWorld)
     (simp add: processQueue_def emptyWorld_def Object_values_def Object_keys_def
      List.map_filter_simps MAX_PARALLEL_SESSIONS_def)

text \<open>
  C7, evaluated. A request for 5 shares is submitted and admitted, and the credential check
  of the runner fails. The runner attempts no share and returns, but nothing is recorded.
  It passes \<open>failedShares: amount\<close>, and the stored session has no field \<open>amount\<close> (the
  submit handler stores the count as \<open>totalShares\<close>): the object to write holds an
  \<open>undefined\<close> property, the store refuses it, and the session is left as it was, still
  \<open>queued\<close>, with no error text and no failed count.
\<close>

theorem setup_failure_records_nothing:
  "map_of (sessions submittedWorld) 123456
     = Some (queuedEntry 5 1 ''https://facebook.com/p'' ''xs=1'' 1)
   \<and> fst (processSession (sampleEnv cookieDead alwaysShares) 123456 (startRun submittedWorld)) = Resolved
   \<and> run_calls (snd (processSession (sampleEnv cookieDead alwaysShares) 123456 (startRun submittedWorld))) = 0
   \<and> run_world (snd (processSession (sampleEnv cookieDead alwaysShares) 123456
                         (startRun submittedWorld))) = submittedWorld
   \<and> status (queuedEntry 5 1 ''https://facebook.com/p'' ''xs=1'' 1) = Queued
   \<and> error (queuedEntry 5 1 ''https://facebook.com/p'' ''xs=1'' 1) = None
   \<and> failedShares (queuedEntry 5 1 ''https://facebook.com/p'' ''xs=1'' 1) = None
   \<and> totalShares (queuedEntry 5 1 ''https://facebook.com/p'' ''xs=1'' 1) = 5"
proof -
  have look: "map_of (sessions submittedWorld) 123456
     = Some (queuedEntry 5 1 ''https://facebook.com/p'' ''xs=1'' 1)"
    by (simp add: submittedWorld_eq)
  have none: "amount (queuedEntry 5 1 ''https://facebook.com/p'' ''xs=1'' 1) = None"
    by (simp add: queuedEntry_def)
  have run: "processSession (sampleEnv cookieDead alwaysShares) 123456 (startRun submittedWorld)
     = (Resolved, startRun submittedWorld)"
    by (simp add: processSession_def processSession_try_def look none sampleEnv_def
        cookieDead_def save_def saveProgress_refused)
  have fields: "status (queuedEntry 5 1 ''https://facebook.com/p'' ''xs=1'' 1) = Queued"
    "error (queuedEntry 5 1 ''https://facebook.com/p'' ''xs=1'' 1) = None"
    "failedShares (queuedEntry 5 1 ''https://facebook.com/p'' ''xs=1'' 1) = None"
    "totalShares (queuedEntry 5 1 ''https://facebook.com/p'' ''xs=1'' 1) = 5"
    by (simp_all add: queuedEntry_def)
  from look fields show ?thesis by (simp add: run)
qed

text \<open>
  For the same reason the loop condition \<open>i < amount\<close> is false at once: with every setup
  call succeeding, the session is stored as \<open>completed\<close> with no share attempted.
\<close>

lemma submitted_session_runs_no_action:
  "fst (processSession (sampleEnv cookieAlive alwaysShares) 123456 (startRun submittedWorld)) = Resolved
   \<and> run_calls (snd (processSession (sampleEnv cookieAlive alwaysShares) 123456 (startRun submittedWorld))) = 0
   \<and> map_of (sessions (run_world (snd (processSession (sampleEnv cookieAlive alwaysShares) 123456
                                          (startRun submittedWorld))))) 123456
       = Some ((queuedEntry 5 1 ''https://facebook.com/p'' ''xs=1'' 1)
                 \<lparr>status := Completed, completedShares := 0, failedShares := Some 0\<rparr>)"
  by (simp add: submittedWorld_eq processSession_def processSession_try_def startRun_def
      sampleEnv_def cookieAlive_def sampleToken_def samplePostId_def actionLoop_undefined
      saveProgress_lookup storedAfter_def mergeProgress_def saveProgress_def countsProgress_def
      failedProgress_def queuedEntry_def)

subsection \<open>Sample runs\<close>

lemma runnerWorld_lookup: "map_of (sessions (runnerWorld n)) 123456 = Some (storedSession n)"
  by (simp add: runnerWorld_def)

text \<open>
  On a stored session that does carry \<open>amount\<close>, the same setup failure is recorded: the
  session is stored as \<open>failed\<close> with the error text and all of \<open>amount\<close> as failed.
\<close>

lemma setup_failure_with_amount:
  "processSession (sampleEnv cookieDead share) 123456 (startRun (runnerWorld 5)) =
     (Resolved,
      \<lparr>run_world =
         \<lparr>sessions = [(123456, (storedSession 5)\<lparr>status := Failed,
                                   error := Some ''Invalid cookie'', failedShares := Some 5\<rparr>)],
          sessionCounter = Some 1, queue = []\<rparr>,
       run_calls = 0,
       run_saves = [(None, (storedSession 5)\<lparr>status := Failed,
                              error := Some ''Invalid cookie'', failedShares := Some 5\<rparr>)]\<rparr>)"
  by (simp add: processSession_def processSession_try_def runnerWorld_def sampleEnv_def
      cookieDead_def save_def saveProgress_def storedAfter_def mergeProgress_def
      failedProgress_def storedSession_def startRun_def Let_def)


lemma processSession_sample:
  "processSession (sampleEnv cookieAlive share) 123456 (startRun (runnerWorld n)) =
     (case actionLoop (sampleEnv cookieAlive share) 123456 (Some n) 0 0 0 0
             (save None 123456 inProgressUpdate (startRun (runnerWorld n))) of
        (Finished sc fc, r2) \<Rightarrow>
          (Resolved, save None 123456 ((countsProgress sc fc)\<lparr>p_status := Some Completed\<rparr>) r2)
      | (Stopped, r2) \<Rightarrow> (Resolved, r2)
      | (Raised msg, r2) \<Rightarrow> (Rejected ''ReferenceError: amount is not defined'', r2))"
proof -
  have a: "amount (storedSession n) = Some n" by (simp add: storedSession_def)
  have v: "validateCookie (sampleEnv cookieAlive share) (cookie (storedSession n))"
    by (simp add: sampleEnv_def cookieAlive_def)
  have t: "getFacebookToken (sampleEnv cookieAlive share) (cookie (storedSession n)) = Some ''xs=1|EAAGt''"
    by (simp add: sampleEnv_def sampleToken_def)
  have p: "getPostId (sampleEnv cookieAlive share) (url (storedSession n)) = Some ''1''"
    by (simp add: sampleEnv_def samplePostId_def)
  show ?thesis
    unfolding processSession_setup_ok[OF runnerWorld_lookup v t p] a by (rule refl)
qed

lemma started_sample:
  "save None 123456 inProgressUpdate (startRun (runnerWorld n)) =
     \<lparr>run_world = \<lparr>sessions = [(123456, (storedSession n)\<lparr>status := InProgress\<rparr>)],
                    sessionCounter = Some 1, queue = []\<rparr>,
      run_calls = 0,
      run_saves = [(None, (storedSession n)\<lparr>status := InProgress\<rparr>)]\<rparr>"
  by (simp add: save_def startRun_def runnerWorld_def saveProgress_def storedAfter_def
      mergeProgress_def inProgressUpdate_def)



lemmas run_eval =
  actionLoop.simps belowAmount_def isLastIndex_def flush_def save_def saveProgress_def
  storedAfter_def mergeProgress_def countsProgress_def terminatedProgress_def

subsection \<open>The flush schedule\<close>




subsection \<open>The circuit breaker\<close>





subsection \<open>Errors thrown inside the runner\<close>

text \<open>
  C4, evaluated. A stored session with \<open>amount\<close> 3 is run, and the limiter rejects the first
  scheduled share. The promise of \<open>processSession\<close> is rejected with the ReferenceError of
  the handler, and the session stays \<open>in_progress\<close> in the store: no \<open>failed\<close> status, no
  error text and no failed count are recorded.
\<close>

theorem thrown_error_escapes:
  "fst (processSession (sampleEnv cookieAlive rejectsFirst) 123456 (startRun (runnerWorld 3)))
     = Rejected ''ReferenceError: amount is not defined''
   \<and> map_of (sessions (run_world (snd (processSession (sampleEnv cookieAlive rejectsFirst) 123456
                                          (startRun (runnerWorld 3)))))) 123456 =
       Some ((storedSession 3)\<lparr>status := InProgress\<rparr>)"
  by (simp add: processSession_sample started_sample)
     (simp add: run_eval loopBody_def maxRetries_def numeral_3_eq_3 sampleEnv_def
        rejectsFirst_def)

text \<open>
  Whatever is thrown inside the \<open>try\<close> block, the handler saves nothing and the runner's
  promise is rejected.
\<close>

lemma processSession_throws:
  "fst (processSession_try e sid r) = Threw msg \<Longrightarrow>
   processSession e sid r =
     (Rejected ''ReferenceError: amount is not defined'', snd (processSession_try e sid r))"
  by (cases "processSession_try e sid r")
     (simp add: processSession_def processSession_catch_def)

subsection \<open>Counts against the requested count\<close>

text \<open>
  A restart while a session of 5 requested shares is \<open>in_progress\<close> with nothing done yet
  leaves it \<open>failed\<close> with completed + failed = 0: terminal, not \<open>terminated\<close>, and short of
  the requested count.
\<close>

theorem restart_leaves_counts_short:
  "map_of (sessions (startup firstActiveWorld)) 123456 = Some restartedSession
   \<and> \<not> countsWithinRequest restartedSession"
  by (simp add: firstActiveWorld_eq startup_lookup recoverSession_def restartedSession_def
      countsWithinRequest_def failedCount_def isTerminal_def queuedEntry_def)

lemma loopBody_counts:
  assumes "map_of (sessions (run_world r)) sid = Some cur"
    and "totalShares cur = n" and "\<not> isTerminal (status cur)"
    and "sc + fc = i" and "int i < n"
    and "\<forall>x\<in>set (run_saves r). countsWithinRequest (snd x)"
  shows "case loopBody e sid (Some n) i sc fc cf r of
      Continue sc' fc' cf' r' \<Rightarrow>
        sc' + fc' = i + 1
        \<and> (\<forall>x\<in>set (run_saves r'). countsWithinRequest (snd x))
        \<and> (\<exists>cur'. map_of (sessions (run_world r')) sid = Some cur'
              \<and> totalShares cur' = n \<and> \<not> isTerminal (status cur'))
    | Return r' \<Rightarrow> (\<forall>x\<in>set (run_saves r'). countsWithinRequest (snd x))
    | Throw msg r' \<Rightarrow> (\<forall>x\<in>set (run_saves r'). countsWithinRequest (snd x))"
  using assms
  by (auto simp: loopBody_def flush_def Let_def saveProgress_lookup storedAfter_present
      mergeProgress_def countsProgress_def terminatedProgress_def countsWithinRequest_def
      failedCount_def isTerminal_def split: prod.splits sum.splits)

lemma actionLoop_counts:
  "a = Some n \<Longrightarrow> map_of (sessions (run_world r)) sid = Some cur \<Longrightarrow>
   totalShares cur = n \<Longrightarrow> \<not> isTerminal (status cur) \<Longrightarrow> sc + fc = i \<Longrightarrow> int i \<le> n \<Longrightarrow>
   \<forall>x\<in>set (run_saves r). countsWithinRequest (snd x) \<Longrightarrow>
   case actionLoop e sid a i sc fc cf r of
     (ex, r') \<Rightarrow>
       (\<forall>x\<in>set (run_saves r'). countsWithinRequest (snd x))
       \<and> (case ex of
             Finished sc' fc' \<Rightarrow>
               int (sc' + fc') = n
               \<and> (\<exists>cur'. map_of (sessions (run_world r')) sid = Some cur'
                     \<and> totalShares cur' = n)
           | _ \<Rightarrow> True)"
proof (induction e sid a i sc fc cf r arbitrary: cur rule: actionLoop.induct)
  case (1 e sid a i sc fc cf r)
  show ?case
  proof (cases "belowAmount i a")
    case False
    with "1.prems" have "int i = n" by (simp add: belowAmount_def)
    with False "1.prems" show ?thesis
      by (subst actionLoop.simps) auto
  next
    case True
    with "1.prems" have lt: "int i < n" by (simp add: belowAmount_def)
    note body = loopBody_counts[OF "1.prems"(2,3,4,5) lt "1.prems"(7), of e cf]
    show ?thesis
    proof (cases "loopBody e sid a i sc fc cf r")
      case (Throw msg r')
      with body True "1.prems"(1) show ?thesis
        by (subst actionLoop.simps) simp
    next
      case (Return r')
      with body True "1.prems"(1) show ?thesis
        by (subst actionLoop.simps) simp
    next
      case (Continue sc' fc' cf' r1)
      with body "1.prems"(1) obtain cur' where
        b: "sc' + fc' = i + 1" "\<forall>x\<in>set (run_saves r1). countsWithinRequest (snd x)"
           "map_of (sessions (run_world r1)) sid = Some cur'" "totalShares cur' = n"
           "\<not> isTerminal (status cur')"
        by auto
      from lt have le: "int (i + 1) \<le> n" by simp
      from "1.IH"[OF True Continue "1.prems"(1) b(3,4,5,1) le b(2)]
      show ?thesis
        using True Continue by (subst actionLoop.simps) simp
    qed
  qed
qed

lemma runner_counts_bounded:
  assumes "map_of (sessions w) sid = Some s"
    and "amount s = Some (totalShares s)" and "0 \<le> totalShares s"
    and "completedShares s = 0" and "failedCount s = 0"
  shows "\<forall>x\<in>set (run_saves (snd (processSession e sid (startRun w)))).
           countsWithinRequest (snd x)"
proof -
  have setupFail: "countsWithinRequest (mergeProgress s (failedProgress msg (amount s)))" for msg
    using assms(2,4)
    by (simp add: mergeProgress_def failedProgress_def countsWithinRequest_def failedCount_def)
  let ?r1 = "save None sid inProgressUpdate (startRun w)"
  have look: "map_of (sessions (run_world ?r1)) sid = Some (s\<lparr>status := InProgress\<rparr>)"
    using assms(1)
    by (simp add: saveProgress_lookup storedAfter_present mergeProgress_def inProgressUpdate_def)
  have saves1: "\<forall>x\<in>set (run_saves ?r1). countsWithinRequest (snd x)"
    using assms(1,3,4,5)
    by (simp add: storedAfter_present mergeProgress_def inProgressUpdate_def
        countsWithinRequest_def failedCount_def isTerminal_def)
  have loop: "case actionLoop e sid (amount s) 0 0 0 0 ?r1 of
     (ex, r') \<Rightarrow>
       (\<forall>x\<in>set (run_saves r'). countsWithinRequest (snd x))
       \<and> (case ex of
             Finished sc' fc' \<Rightarrow>
               int (sc' + fc') = totalShares s
               \<and> (\<exists>cur'. map_of (sessions (run_world r')) sid = Some cur'
                     \<and> totalShares cur' = totalShares s)
           | _ \<Rightarrow> True)"
    by (rule actionLoop_counts[OF assms(2) look _ _ _ _ saves1])
       (simp_all add: isTerminal_def assms(3))
  show ?thesis
  proof (cases "validateCookie e (cookie s) \<and> getFacebookToken e (cookie s) \<noteq> None
                 \<and> getPostId e (url s) \<noteq> None")
    case False
    then show ?thesis
      using assms(1) setupFail
      by (auto simp: processSession_def processSession_try_def Let_def storedAfter_present
          split: option.splits)
  next
    case True
    then obtain t p where ok: "validateCookie e (cookie s)"
      "getFacebookToken e (cookie s) = Some t" "getPostId e (url s) = Some p"
      by auto
    obtain ex r' where run: "actionLoop e sid (amount s) 0 0 0 0 ?r1 = (ex, r')"
      by (cases "actionLoop e sid (amount s) 0 0 0 0 ?r1")
    show ?thesis
    proof (cases ex)
      case (Finished sc fc)
      with loop run obtain cur' where
        f: "\<forall>x\<in>set (run_saves r'). countsWithinRequest (snd x)"
           "int (sc + fc) = totalShares s"
           "map_of (sessions (run_world r')) sid = Some cur'" "totalShares cur' = totalShares s"
        by auto
      have "countsWithinRequest
              (mergeProgress cur' ((countsProgress sc fc)\<lparr>p_status := Some Completed\<rparr>))"
        using f(2,4)
        by (simp add: mergeProgress_def countsProgress_def countsWithinRequest_def
            failedCount_def)
      with f(1,3) show ?thesis
        by (simp add: processSession_setup_ok[OF assms(1) ok] run Finished storedAfter_present)
    next
      case Stopped
      with loop run show ?thesis
        by (simp add: processSession_setup_ok[OF assms(1) ok])
    next
      case (Raised msg)
      with loop run show ?thesis
        by (simp add: processSession_setup_ok[OF assms(1) ok])
    qed
  qed
qed

lemma runner_counts_undefined:
  assumes "map_of (sessions w) sid = Some s"
    and "amount s = None" and "0 \<le> totalShares s"
    and "completedShares s = 0" and "failedCount s = 0"
  shows "\<forall>x\<in>set (run_saves (snd (processSession e sid (startRun w)))).
           completedShares (snd x) + failedCount (snd x) \<le> totalShares (snd x)"
proof (cases "validateCookie e (cookie s) \<and> getFacebookToken e (cookie s) \<noteq> None
                 \<and> getPostId e (url s) \<noteq> None")
  case False
  then show ?thesis
    using assms
    by (auto simp: processSession_def processSession_try_def Let_def storedAfter_present
        mergeProgress_def failedProgress_def failedCount_def split: option.splits)
next
  case True
  then obtain t p where ok: "validateCookie e (cookie s)"
    "getFacebookToken e (cookie s) = Some t" "getPostId e (url s) = Some p"
    by auto
  show ?thesis
    using assms
    by (simp add: processSession_setup_ok[OF assms(1) ok] actionLoop_undefined
        storedAfter_present saveProgress_lookup mergeProgress_def inProgressUpdate_def
        countsProgress_def failedCount_def)
qed

text \<open>
  C1, amended. Take a stored session with no share completed or failed yet and a
  requested count \<open>totalShares\<close> that is not negative. Whatever the environment answers:
  when the session's \<open>amount\<close> is absent (as in every session the submit handler stores) or
  equals \<open>totalShares\<close>, every session object the runner saves has completed + failed at
  most \<open>totalShares\<close>; and when \<open>amount\<close> equals \<open>totalShares\<close>, every object it saves with a
  terminal status has completed + failed equal to \<open>totalShares\<close>, or has status
  \<open>terminated\<close>.
\<close>

theorem runner_keeps_counts:
  assumes "map_of (sessions w) sid = Some s"
    and "0 \<le> totalShares s" and "completedShares s = 0" and "failedCount s = 0"
  shows "(amount s = None \<or> amount s = Some (totalShares s) \<longrightarrow>
           (\<forall>x\<in>set (run_saves (snd (processSession e sid (startRun w)))).
              completedShares (snd x) + failedCount (snd x) \<le> totalShares (snd x)))
       \<and> (amount s = Some (totalShares s) \<longrightarrow>
           (\<forall>x\<in>set (run_saves (snd (processSession e sid (startRun w)))).
              countsWithinRequest (snd x)))"
proof -
  have full: "\<forall>x\<in>set (run_saves (snd (processSession e sid (startRun w)))).
              countsWithinRequest (snd x)"
    if "amount s = Some (totalShares s)"
    by (rule runner_counts_bounded[OF assms(1) that assms(2,3,4)])
  have part: "\<forall>x\<in>set (run_saves (snd (processSession e sid (startRun w)))).
              completedShares (snd x) + failedCount (snd x) \<le> totalShares (snd x)"
    if "amount s = None \<or> amount s = Some (totalShares s)"
    using that
  proof
    assume "amount s = None"
    then show ?thesis by (rule runner_counts_undefined[OF assms(1) _ assms(2,3,4)])
  next
    assume "amount s = Some (totalShares s)"
    from full[OF this] show ?thesis by (simp add: countsWithinRequest_def)
  qed
  from full part show ?thesis by blast
qed

lemma alwaysShares_run2:
  "run_saves (snd (processSession (sampleEnv cookieAlive alwaysShares) 123456
                     (startRun (runnerWorld 2)))) =
     [(None, (storedSession 2)\<lparr>status := InProgress\<rparr>),
      (Some 0, (storedSession 2)\<lparr>status := InProgress, completedShares := 1,
                                   failedShares := Some 0\<rparr>),
      (Some 1, (storedSession 2)\<lparr>status := InProgress, completedShares := 2,
                                   failedShares := Some 0\<rparr>),
      (None, (storedSession 2)\<lparr>status := Completed, completedShares := 2,
                                 failedShares := Some 0\<rparr>)]"
  by (simp add: processSession_sample started_sample)
     (simp add: run_eval loopBody_def maxRetries_def numeral_3_eq_3 sampleEnv_def
        alwaysShares_def)

lemma submitted_run_saves:
  "run_saves (snd (processSession (sampleEnv cookieAlive alwaysShares) 123456
                     (startRun submittedWorld))) =
     [(None, (queuedEntry 5 1 ''https://facebook.com/p'' ''xs=1'' 1)\<lparr>status := InProgress\<rparr>),
      (None, (queuedEntry 5 1 ''https://facebook.com/p'' ''xs=1'' 1)
                 \<lparr>status := Completed, completedShares := 0, failedShares := Some 0\<rparr>)]"
  by (simp add: submittedWorld_eq processSession_def processSession_try_def startRun_def
      sampleEnv_def cookieAlive_def sampleToken_def samplePostId_def actionLoop_undefined
      saveProgress_lookup storedAfter_def mergeProgress_def saveProgress_def countsProgress_def
      failedProgress_def queuedEntry_def save_def)

theorem runner_keeps_counts_witness:
  "map_of (sessions (runnerWorld 2)) 123456 = Some (storedSession 2)
   \<and> amount (storedSession 2) = Some (totalShares (storedSession 2))
   \<and> 0 \<le> totalShares (storedSession 2)
   \<and> completedShares (storedSession 2) = 0
   \<and> failedCount (storedSession 2) = 0
   \<and> (None, (storedSession 2)\<lparr>status := Completed, completedShares := 2,
                                failedShares := Some 0\<rparr>)
        \<in> set (run_saves (snd (processSession (sampleEnv cookieAlive alwaysShares) 123456
                                  (startRun (runnerWorld 2)))))
   \<and> completedShares ((storedSession 2)\<lparr>status := Completed, completedShares := 2,
                                          failedShares := Some 0\<rparr>)
       + failedCount ((storedSession 2)\<lparr>status := Completed, completedShares := 2,
                                          failedShares := Some 0\<rparr>)
       = totalShares ((storedSession 2)\<lparr>status := Completed, completedShares := 2,
                                          failedShares := Some 0\<rparr>)
   \<and> map_of (sessions submittedWorld) 123456 =
         Some (queuedEntry 5 1 ''https://facebook.com/p'' ''xs=1'' 1)
   \<and> amount (queuedEntry 5 1 ''https://facebook.com/p'' ''xs=1'' 1) = None
   \<and> (None, (queuedEntry 5 1 ''https://facebook.com/p'' ''xs=1'' 1)
                 \<lparr>status := Completed, completedShares := 0, failedShares := Some 0\<rparr>)
        \<in> set (run_saves (snd (processSession (sampleEnv cookieAlive alwaysShares) 123456
                                  (startRun submittedWorld))))
   \<and> completedShares ((queuedEntry 5 1 ''https://facebook.com/p'' ''xs=1'' 1)
                 \<lparr>status := Completed, completedShares := 0, failedShares := Some 0\<rparr>)
       + failedCount ((queuedEntry 5 1 ''https://facebook.com/p'' ''xs=1'' 1)
                 \<lparr>status := Completed, completedShares := 0, failedShares := Some 0\<rparr>)
       \<le> totalShares ((queuedEntry 5 1 ''https://facebook.com/p'' ''xs=1'' 1)
                 \<lparr>status := Completed, completedShares := 0, failedShares := Some 0\<rparr>)"
proof -
  let ?x = "(storedSession 2)\<lparr>status := Completed, completedShares := 2, failedShares := Some 0\<rparr>"
  let ?q = "queuedEntry 5 1 ''https://facebook.com/p'' ''xs=1'' 1"
  let ?y = "?q\<lparr>status := Completed, completedShares := 0, failedShares := Some 0\<rparr>"
  have h1: "map_of (sessions (runnerWorld 2)) 123456 = Some (storedSession 2)"
    by (rule runnerWorld_lookup)
  have h2: "amount (storedSession 2) = Some (totalShares (storedSession 2))"
    and h3: "0 \<le> totalShares (storedSession 2)"
    and h4: "completedShares (storedSession 2) = 0"
    and h5: "failedCount (storedSession 2) = 0"
    by (simp_all add: storedSession_def sampleSession_def failedCount_def)
  have m: "(None, ?x) \<in> set (run_saves (snd (processSession (sampleEnv cookieAlive alwaysShares)
                                              123456 (startRun (runnerWorld 2)))))"
    by (simp add: alwaysShares_run2)
  from runner_keeps_counts[OF h1 h3 h4 h5, of "sampleEnv cookieAlive alwaysShares"] h2 m
  have "countsWithinRequest (snd (None :: nat option, ?x))" by blast
  then have c: "completedShares ?x + failedCount ?x = totalShares ?x"
    by (simp add: countsWithinRequest_def isTerminal_def)
  have g1: "map_of (sessions submittedWorld) 123456 = Some ?q"
    by (simp add: submittedWorld_eq)
  have g2: "amount ?q = None" and g3: "0 \<le> totalShares ?q"
    and g4: "completedShares ?q = 0" and g5: "failedCount ?q = 0"
    by (simp_all add: queuedEntry_def failedCount_def)
  have n: "(None, ?y) \<in> set (run_saves (snd (processSession (sampleEnv cookieAlive alwaysShares)
                                              123456 (startRun submittedWorld))))"
    by (simp add: submitted_run_saves)
  from runner_keeps_counts[OF g1 g3 g4 g5, of "sampleEnv cookieAlive alwaysShares"] g2 n
  have d: "completedShares (snd (None :: nat option, ?y)) + failedCount (snd (None :: nat option, ?y))
             \<le> totalShares (snd (None :: nat option, ?y))"
    by blast
  from h1 h2 h3 h4 h5 m c g1 g2 n d show ?thesis by simp
qed

end
